theory Spec2Isabelle
  imports Main "HOL-Library.Word" "HOL-Library.AList" "HOL-Library.Multiset"
begin

section \<open>Values of the Go program\<close>

text \<open>
  The log drains of \<^verbatim>\<open>backend/http/logging.go\<close>: \<^verbatim>\<open>HandleFirehoseLog\<close> (the batch
  drain) and \<^verbatim>\<open>HandleJSONLog\<close> (the flat JSON drain).

  A Go \<^verbatim>\<open>string\<close> and a \<^verbatim>\<open>[]byte\<close> are byte sequences: \<open>string\<close>. An \<^verbatim>\<open>error\<close> is
  represented by its text (\<^verbatim>\<open>err.Error()\<close>), which is all the handlers use of it.
  An \<^verbatim>\<open>int64\<close> is a 64-bit word read with \<open>sint\<close>; a \<^verbatim>\<open>float64\<close> is its IEEE-754 bit
  pattern.
\<close>

type_synonym error = string

type_synonym int64 = "64 word"

datatype float64 = Float64bits "64 word"

text \<open>
  A parsed JSON document, as \<^verbatim>\<open>encoding/json\<close> scans it: the members of an object in
  the order of the text (duplicates kept), a number as its literal text.
\<close>

datatype json =
    JNull
  | JBool bool
  | JNumber string
  | JString string
  | JArray "json list"
  | JObject "(string \<times> json) list"

text \<open>The value of a Go \<^verbatim>\<open>interface{}\<close>; a map is its list of entries, keys distinct.\<close>

datatype any =
    Nil
  | Bool bool
  | Float64 float64
  | Int64 int64
  | String string
  | Slice "any list"
  | Map "(string \<times> any) list"

text \<open>
  Modelled from the spec: the struct \<^verbatim>\<open>hlog.Log\<close> of the Go SDK
  (\<^verbatim>\<open>sdk/highlight-go/log\<close>) is declared outside the files at hand. The spec's
  CanonicalLogRecord gives its fields: message, timestamp (text in a fixed format), level
  and attributes, a map from string to string. The handlers assign all four, so they are
  exported fields, and \<^verbatim>\<open>encoding/json\<close> decodes an exported field from the JSON member
  of its name. A Go map can be \<^verbatim>\<open>nil\<close>: \<open>None\<close>.
\<close>

record Log =
  Message :: string
  Timestamp :: string
  Level :: string
  Attributes :: "(string \<rightharpoonup> string) option"

text \<open>The anonymous struct \<^verbatim>\<open>lg\<close> of \<^verbatim>\<open>HandleFirehoseLog\<close> and its records.\<close>

record FirehoseRecord =
  Data :: string

record FirehoseBody =
  RequestId :: string
  lg_Timestamp :: int64
  Records :: "FirehoseRecord list"

text \<open>The struct \<^verbatim>\<open>attributesMap\<close> decoded from the common-attributes header.\<close>

record CommonAttributes_t =
  ProjectID :: string

record AttributesMap =
  CommonAttributes :: CommonAttributes_t

text \<open>The struct \<^verbatim>\<open>cloudwatchPayload\<close> and its log events.\<close>

record LogEvent =
  Id :: string
  ev_Timestamp :: int64
  ev_Message :: string

record CloudwatchPayload =
  MessageType :: string
  Owner :: string
  LogGroup :: string
  LogStream :: string
  SubscriptionFilters :: "string list"
  LogEvents :: "LogEvent list"

text \<open>
  What the handlers call and do not define. The functions of the Go libraries are
  parameters: the scanner of \<^verbatim>\<open>encoding/json\<close> (\<open>json_parse\<close>: a syntax error, or the
  document), \<^verbatim>\<open>strconv.ParseFloat(s, 64)\<close>, \<^verbatim>\<open>strconv.FormatFloat(f, 'E', -1, 64)\<close>,
  \<^verbatim>\<open>gzip.NewReader\<close> (\<open>gzip_NewReader\<close>: the error of a bad header, if any) followed by
  \<^verbatim>\<open>io.ReadAll\<close> on the reader it returned (\<open>gzip_ReadAll\<close>),
  \<^verbatim>\<open>base64.StdEncoding.DecodeString\<close>, the 16 bytes of the UUID that \<^verbatim>\<open>uuid.New()\<close>
  returns (it is taken to return: it panics only when the random source fails), the
  clock, and \<^verbatim>\<open>time.UnixMilli(ms).UTC().Format(hlog.TimestampFormat)\<close>
  (\<open>format_UnixMilli\<close>). \<^verbatim>\<open>model2.FromVerboseID\<close>, the codec of tenant identifiers, is
  declared outside the files at hand and is a parameter as well.
\<close>

record env =
  json_parse :: "string \<Rightarrow> error + json"
  ParseFloat :: "string \<Rightarrow> error + float64"
  FormatFloat_E :: "float64 \<Rightarrow> string"
  gzip_NewReader :: "string \<Rightarrow> error option"
  gzip_ReadAll :: "string \<Rightarrow> error + string"
  base64_DecodeString :: "string \<Rightarrow> error + string"
  FromVerboseID :: "string \<Rightarrow> error + int"
  uuid_New :: "8 word list"
  time_Now_UnixMilli :: int64
  format_UnixMilli :: "int64 \<Rightarrow> string"

section \<open>Decoding JSON into Go values\<close>

text \<open>
  \<^verbatim>\<open>json.Unmarshal\<close> matches an object member to a struct field by name, ignoring case:
  both names are folded, ASCII letters to upper case, and the two letters outside ASCII
  that fold into it, U+017F (long s) to S and U+212A (Kelvin sign) to K, given here by
  their UTF-8 bytes. The field names of the handlers are ASCII.
\<close>

definition to_upper :: "char \<Rightarrow> char" where
  "to_upper c =
     (case map_of (zip ''abcdefghijklmnopqrstuvwxyz'' ''ABCDEFGHIJKLMNOPQRSTUVWXYZ'') c of
        None \<Rightarrow> c
      | Some u \<Rightarrow> u)"

definition to_lower :: "char \<Rightarrow> char" where
  "to_lower c =
     (case map_of (zip ''ABCDEFGHIJKLMNOPQRSTUVWXYZ'' ''abcdefghijklmnopqrstuvwxyz'') c of
        None \<Rightarrow> c
      | Some l \<Rightarrow> l)"

fun foldName :: "string \<Rightarrow> string" where
  "foldName [] = []"
| "foldName [c] = [to_upper c]"
| "foldName [c, d] =
     (if c = CHR 0xC5 \<and> d = CHR 0xBF then ''S''
      else to_upper c # foldName [d])"
| "foldName (c # d # e # cs) =
     (if c = CHR 0xC5 \<and> d = CHR 0xBF then CHR ''S'' # foldName (e # cs)
      else if c = CHR 0xE2 \<and> d = CHR 0x84 \<and> e = CHR 0xAA then CHR ''K'' # foldName cs
      else to_upper c # foldName (d # e # cs))"

definition field_match :: "string \<Rightarrow> string \<Rightarrow> bool" where
  "field_match key name = (foldName key = foldName name)"

text \<open>
  The text of an \<^verbatim>\<open>UnmarshalTypeError\<close>: the kind of the JSON value and the Go type, without
  the name of the struct field that Go adds to it.
\<close>

fun json_kind :: "json \<Rightarrow> string" where
  "json_kind JNull = ''null''"
| "json_kind (JBool b) = ''bool''"
| "json_kind (JNumber lit) = ''number '' @ lit"
| "json_kind (JString s) = ''string''"
| "json_kind (JArray xs) = ''array''"
| "json_kind (JObject ms) = ''object''"

definition type_error :: "json \<Rightarrow> string \<Rightarrow> error" where
  "type_error j ty = ''json: cannot unmarshal '' @ json_kind j @ '' into Go value of type '' @ ty"

text \<open>
  \<^verbatim>\<open>strconv.ParseInt(lit, 10, 64)\<close> on the literal of a JSON number: an optional sign and
  decimal digits only, the value within the range of \<^verbatim>\<open>int64\<close>.
\<close>

definition digit_value :: "char \<Rightarrow> int option" where
  "digit_value c = map_of (zip ''0123456789'' [0, 1, 2, 3, 4, 5, 6, 7, 8, 9]) c"

definition is_digit :: "char \<Rightarrow> bool" where
  "is_digit c = (case digit_value c of None \<Rightarrow> False | Some d \<Rightarrow> True)"

definition digits_value :: "string \<Rightarrow> int" where
  "digits_value ds =
     foldl (\<lambda>acc c. 10 * acc + (case digit_value c of None \<Rightarrow> 0 | Some d \<Rightarrow> d)) 0 ds"

definition ParseInt :: "string \<Rightarrow> error + int64" where
  "ParseInt lit =
     (let neg = (case lit of [] \<Rightarrow> False | c # _ \<Rightarrow> c = CHR ''-'');
          ds = (case lit of [] \<Rightarrow> []
                | c # cs \<Rightarrow> if c = CHR ''-'' then cs else if c = CHR ''+'' then cs else lit);
          v = (if neg then - digits_value ds else digits_value ds)
      in if ds = [] then Inl (''strconv.ParseInt: parsing '' @ lit @ '': invalid syntax'')
         else if list_all is_digit ds then
           (if - (2 ^ 63) \<le> v \<and> v < 2 ^ 63 then Inr (word_of_int v)
            else Inl (''strconv.ParseInt: parsing '' @ lit @ '': value out of range''))
         else Inl (''strconv.ParseInt: parsing '' @ lit @ '': invalid syntax''))"

text \<open>
  A JSON value stored into a Go \<^verbatim>\<open>string\<close> or \<^verbatim>\<open>int64\<close> that holds \<open>cur\<close>: \<^verbatim>\<open>null\<close>
  leaves the value as it is, a value of another kind is an \<^verbatim>\<open>UnmarshalTypeError\<close>. The
  callers drop the target on any error, so decoding stops at the first one.
\<close>

fun decode_string :: "string \<Rightarrow> json \<Rightarrow> error + string" where
  "decode_string cur JNull = Inr cur"
| "decode_string cur (JString s) = Inr s"
| "decode_string cur j = Inl (type_error j ''string'')"

fun decode_int64 :: "int64 \<Rightarrow> json \<Rightarrow> error + int64" where
  "decode_int64 cur JNull = Inr cur"
| "decode_int64 cur (JNumber lit) =
     (case ParseInt lit of Inl e \<Rightarrow> Inl (type_error (JNumber lit) ''int64'') | Inr n \<Rightarrow> Inr n)"
| "decode_int64 cur j = Inl (type_error j ''int64'')"

text \<open>
  A JSON array stored into a slice: the element at an index below the length the slice
  has is decoded in place, one beyond starts from the zero value \<open>z\<close>; \<^verbatim>\<open>null\<close> makes
  the slice \<^verbatim>\<open>nil\<close>.
\<close>

fun decode_elems :: "('a \<Rightarrow> json \<Rightarrow> error + 'a) \<Rightarrow> 'a \<Rightarrow> 'a list \<Rightarrow> json list \<Rightarrow> error + 'a list" where
  "decode_elems dec z cur [] = Inr []"
| "decode_elems dec z cur (j # js) =
     (case dec (case cur of [] \<Rightarrow> z | c # _ \<Rightarrow> c) j of
        Inl e \<Rightarrow> Inl e
      | Inr v \<Rightarrow>
          (case decode_elems dec z (tl cur) js of
             Inl e \<Rightarrow> Inl e
           | Inr vs \<Rightarrow> Inr (v # vs)))"

definition decode_slice :: "('a \<Rightarrow> json \<Rightarrow> error + 'a) \<Rightarrow> 'a \<Rightarrow> string \<Rightarrow> 'a list \<Rightarrow> json \<Rightarrow> error + 'a list" where
  "decode_slice dec z ty cur j =
     (case j of
        JNull \<Rightarrow> Inr []
      | JArray js \<Rightarrow> decode_elems dec z cur js
      | _ \<Rightarrow> Inl (type_error j ty))"

text \<open>
  A JSON object stored into a struct: the members in the order of the text, each into
  the field its name matches (\<open>field\<close>), a member that matches no field skipped;
  \<^verbatim>\<open>null\<close> leaves the struct as it is.
\<close>

fun decode_members :: "(string \<Rightarrow> 'a \<Rightarrow> json \<Rightarrow> error + 'a) \<Rightarrow> 'a \<Rightarrow> (string \<times> json) list \<Rightarrow> error + 'a" where
  "decode_members field cur [] = Inr cur"
| "decode_members field cur ((k, v) # ms) =
     (case field k cur v of
        Inl e \<Rightarrow> Inl e
      | Inr cur' \<Rightarrow> decode_members field cur' ms)"

definition decode_struct :: "(string \<Rightarrow> 'a \<Rightarrow> json \<Rightarrow> error + 'a) \<Rightarrow> string \<Rightarrow> 'a \<Rightarrow> json \<Rightarrow> error + 'a" where
  "decode_struct field ty cur j =
     (case j of
        JNull \<Rightarrow> Inr cur
      | JObject ms \<Rightarrow> decode_members field cur ms
      | _ \<Rightarrow> Inl (type_error j ty))"

definition json_Unmarshal :: "env \<Rightarrow> ('a \<Rightarrow> json \<Rightarrow> error + 'a) \<Rightarrow> string \<Rightarrow> 'a \<Rightarrow> error + 'a" where
  "json_Unmarshal E dec data cur =
     (case json_parse E data of
        Inl e \<Rightarrow> Inl e
      | Inr j \<Rightarrow> dec cur j)"

text \<open>The fields of the structs, with the names or tags the source gives them.\<close>

definition FirehoseRecord_field :: "string \<Rightarrow> FirehoseRecord \<Rightarrow> json \<Rightarrow> error + FirehoseRecord" where
  "FirehoseRecord_field k cur v =
     (if field_match k ''Data'' then map_sum id (\<lambda>s. cur\<lparr>Data := s\<rparr>) (decode_string (Data cur) v)
      else Inr cur)"

definition FirehoseBody_field :: "string \<Rightarrow> FirehoseBody \<Rightarrow> json \<Rightarrow> error + FirehoseBody" where
  "FirehoseBody_field k cur v =
     (if field_match k ''RequestId'' then
        map_sum id (\<lambda>s. cur\<lparr>RequestId := s\<rparr>) (decode_string (RequestId cur) v)
      else if field_match k ''Timestamp'' then
        map_sum id (\<lambda>n. cur\<lparr>lg_Timestamp := n\<rparr>) (decode_int64 (lg_Timestamp cur) v)
      else if field_match k ''Records'' then
        map_sum id (\<lambda>rs. cur\<lparr>Records := rs\<rparr>)
          (decode_slice (decode_struct FirehoseRecord_field ''struct { Data string }'')
             \<lparr>Data = []\<rparr> ''[]struct { Data string }'' (Records cur) v)
      else Inr cur)"

definition CommonAttributes_field :: "string \<Rightarrow> CommonAttributes_t \<Rightarrow> json \<Rightarrow> error + CommonAttributes_t" where
  "CommonAttributes_field k cur v =
     (if field_match k ''x-highlight-project'' then
        map_sum id (\<lambda>s. cur\<lparr>ProjectID := s\<rparr>) (decode_string (ProjectID cur) v)
      else Inr cur)"

definition AttributesMap_field :: "string \<Rightarrow> AttributesMap \<Rightarrow> json \<Rightarrow> error + AttributesMap" where
  "AttributesMap_field k cur v =
     (if field_match k ''commonAttributes'' then
        map_sum id (\<lambda>c. cur\<lparr>CommonAttributes := c\<rparr>)
          (decode_struct CommonAttributes_field ''struct'' (CommonAttributes cur) v)
      else Inr cur)"

definition LogEvent_field :: "string \<Rightarrow> LogEvent \<Rightarrow> json \<Rightarrow> error + LogEvent" where
  "LogEvent_field k cur v =
     (if field_match k ''Id'' then map_sum id (\<lambda>s. cur\<lparr>Id := s\<rparr>) (decode_string (Id cur) v)
      else if field_match k ''Timestamp'' then
        map_sum id (\<lambda>n. cur\<lparr>ev_Timestamp := n\<rparr>) (decode_int64 (ev_Timestamp cur) v)
      else if field_match k ''Message'' then
        map_sum id (\<lambda>s. cur\<lparr>ev_Message := s\<rparr>) (decode_string (ev_Message cur) v)
      else Inr cur)"

definition CloudwatchPayload_field :: "string \<Rightarrow> CloudwatchPayload \<Rightarrow> json \<Rightarrow> error + CloudwatchPayload" where
  "CloudwatchPayload_field k cur v =
     (if field_match k ''MessageType'' then
        map_sum id (\<lambda>s. cur\<lparr>MessageType := s\<rparr>) (decode_string (MessageType cur) v)
      else if field_match k ''Owner'' then
        map_sum id (\<lambda>s. cur\<lparr>Owner := s\<rparr>) (decode_string (Owner cur) v)
      else if field_match k ''LogGroup'' then
        map_sum id (\<lambda>s. cur\<lparr>LogGroup := s\<rparr>) (decode_string (LogGroup cur) v)
      else if field_match k ''LogStream'' then
        map_sum id (\<lambda>s. cur\<lparr>LogStream := s\<rparr>) (decode_string (LogStream cur) v)
      else if field_match k ''SubscriptionFilters'' then
        map_sum id (\<lambda>fs. cur\<lparr>SubscriptionFilters := fs\<rparr>)
          (decode_slice decode_string [] ''[]string'' (SubscriptionFilters cur) v)
      else if field_match k ''LogEvents'' then
        map_sum id (\<lambda>evs. cur\<lparr>LogEvents := evs\<rparr>)
          (decode_slice (decode_struct LogEvent_field ''struct'')
             \<lparr>Id = [], ev_Timestamp = 0, ev_Message = []\<rparr> ''[]struct'' (LogEvents cur) v)
      else Inr cur)"

text \<open>
  A JSON object stored into a \<^verbatim>\<open>map[string]string\<close>: a \<^verbatim>\<open>nil\<close> map is made first,
  each member's value is decoded from the zero string and stored under its name;
  \<^verbatim>\<open>null\<close> sets the map to \<^verbatim>\<open>nil\<close>.
\<close>

fun decode_map_entries :: "(string \<rightharpoonup> string) \<Rightarrow> (string \<times> json) list \<Rightarrow> error + (string \<rightharpoonup> string)" where
  "decode_map_entries m [] = Inr m"
| "decode_map_entries m ((k, v) # ms) =
     (case decode_string [] v of
        Inl e \<Rightarrow> Inl e
      | Inr s \<Rightarrow> decode_map_entries (m(k \<mapsto> s)) ms)"

definition decode_map_string :: "(string \<rightharpoonup> string) option \<Rightarrow> json \<Rightarrow> error + (string \<rightharpoonup> string) option" where
  "decode_map_string cur j =
     (case j of
        JNull \<Rightarrow> Inr None
      | JObject ms \<Rightarrow>
          map_sum id Some (decode_map_entries (case cur of None \<Rightarrow> Map.empty | Some m \<Rightarrow> m) ms)
      | _ \<Rightarrow> Inl (type_error j ''map[string]string''))"

definition Log_field :: "string \<Rightarrow> Log \<Rightarrow> json \<Rightarrow> error + Log" where
  "Log_field k cur v =
     (if field_match k ''message'' then
        map_sum id (\<lambda>s. cur\<lparr>Message := s\<rparr>) (decode_string (Message cur) v)
      else if field_match k ''timestamp'' then
        map_sum id (\<lambda>s. cur\<lparr>Timestamp := s\<rparr>) (decode_string (Timestamp cur) v)
      else if field_match k ''level'' then
        map_sum id (\<lambda>s. cur\<lparr>Level := s\<rparr>) (decode_string (Level cur) v)
      else if field_match k ''attributes'' then
        map_sum id (\<lambda>a. cur\<lparr>Attributes := a\<rparr>) (decode_map_string (Attributes cur) v)
      else Inr cur)"

text \<open>
  A JSON value stored into an \<^verbatim>\<open>interface{}\<close>: every number becomes a \<^verbatim>\<open>float64\<close>
  (\<^verbatim>\<open>ParseFloat\<close> of its literal, whose failure is an error of the whole decoding), an
  object a map in which a later member of the same name replaces the earlier one. No
  JSON value becomes an \<^verbatim>\<open>int64\<close>.
\<close>

fun valueInterface :: "env \<Rightarrow> json \<Rightarrow> error + any"
  and arrayInterface :: "env \<Rightarrow> json list \<Rightarrow> error + any list"
  and objectInterface :: "env \<Rightarrow> (string \<times> any) list \<Rightarrow> (string \<times> json) list \<Rightarrow> error + (string \<times> any) list"
where
  "valueInterface E JNull = Inr Nil"
| "valueInterface E (JBool b) = Inr (Bool b)"
| "valueInterface E (JNumber lit) =
     (case ParseFloat E lit of
        Inl e \<Rightarrow> Inl (type_error (JNumber lit) ''float64'')
      | Inr f \<Rightarrow> Inr (Float64 f))"
| "valueInterface E (JString s) = Inr (String s)"
| "valueInterface E (JArray js) =
     (case arrayInterface E js of Inl e \<Rightarrow> Inl e | Inr vs \<Rightarrow> Inr (Slice vs))"
| "valueInterface E (JObject ms) =
     (case objectInterface E [] ms of Inl e \<Rightarrow> Inl e | Inr m \<Rightarrow> Inr (Map m))"
| "arrayInterface E [] = Inr []"
| "arrayInterface E (j # js) =
     (case valueInterface E j of
        Inl e \<Rightarrow> Inl e
      | Inr v \<Rightarrow> (case arrayInterface E js of Inl e \<Rightarrow> Inl e | Inr vs \<Rightarrow> Inr (v # vs)))"
| "objectInterface E m [] = Inr m"
| "objectInterface E m ((k, j) # ms) =
     (case valueInterface E j of
        Inl e \<Rightarrow> Inl e
      | Inr v \<Rightarrow> objectInterface E (AList.update k v m) ms)"

text \<open>The target \<^verbatim>\<open>map[string]interface{}\<close> of the second decoding in \<^verbatim>\<open>HandleJSONLog\<close>.\<close>

definition decode_map_any :: "env \<Rightarrow> (string \<times> any) list \<Rightarrow> json \<Rightarrow> error + (string \<times> any) list" where
  "decode_map_any E cur j =
     (case j of
        JNull \<Rightarrow> Inr cur
      | JObject ms \<Rightarrow> objectInterface E cur ms
      | _ \<Rightarrow> Inl (type_error j ''map[string]interface {}''))"

section \<open>Formatting\<close>

text \<open>\<^verbatim>\<open>strconv.FormatInt(i, 10)\<close>.\<close>

fun show_nat :: "nat \<Rightarrow> string" where
  "show_nat n =
     (if n < 10 then [''0123456789'' ! n]
      else show_nat (n div 10) @ [''0123456789'' ! (n mod 10)])"

definition FormatInt :: "int64 \<Rightarrow> string" where
  "FormatInt i = (if sint i < 0 then CHR ''-'' # show_nat (nat (- sint i)) else show_nat (nat (sint i)))"

text \<open>
  \<^verbatim>\<open>UUID.String()\<close> of \<^verbatim>\<open>github.com/google/uuid\<close>: the bytes in hexadecimal, in groups of
  4, 2, 2, 2 and 6 bytes with a dash between two groups.
\<close>

definition hex_digit :: "nat \<Rightarrow> char" where
  "hex_digit n = ''0123456789abcdef'' ! n"

definition hex_byte :: "8 word \<Rightarrow> string" where
  "hex_byte b = [hex_digit (unat b div 16), hex_digit (unat b mod 16)]"

definition hex_Encode :: "8 word list \<Rightarrow> string" where
  "hex_Encode bs = concat (map hex_byte bs)"

definition uuid_String :: "8 word list \<Rightarrow> string" where
  "uuid_String u =
     hex_Encode (take 4 u) @ ''-'' @ hex_Encode (take 2 (drop 4 u)) @ ''-'' @
     hex_Encode (take 2 (drop 6 u)) @ ''-'' @ hex_Encode (take 2 (drop 8 u)) @ ''-'' @
     hex_Encode (drop 10 u)"

section \<open>Requests, responses and the sink\<close>

text \<open>
  Of a request the handlers read the headers and the body. \<open>Header\<close> holds the first
  value of each header under its canonical name, as \<^verbatim>\<open>net/http\<close> stores it;
  \<^verbatim>\<open>Header.Get\<close> canonicalises the name it is asked for (as it does for a name of
  letters, digits and dashes, which the four names the handlers ask for are) and gives
  the empty string for a header that is not there. \<open>Body\<close> is what reading \<^verbatim>\<open>r.Body\<close> to its end gives: the
  bytes, or the error of the read.
\<close>

record Request =
  Header :: "string \<rightharpoonup> string"
  Body :: "error + string"

fun canonical :: "bool \<Rightarrow> string \<Rightarrow> string" where
  "canonical up [] = []"
| "canonical up (c # cs) = (if up then to_upper c else to_lower c) # canonical (c = CHR ''-'') cs"

definition CanonicalMIMEHeaderKey :: "string \<Rightarrow> string" where
  "CanonicalMIMEHeaderKey k = canonical True k"

definition Header_Get :: "(string \<rightharpoonup> string) \<Rightarrow> string \<Rightarrow> string" where
  "Header_Get h k = (case h (CanonicalMIMEHeaderKey k) of None \<Rightarrow> [] | Some v \<Rightarrow> v)"

text \<open>
  How a handler ends: \<^verbatim>\<open>http.Error(w, msg, code)\<close>, the JSON acknowledgement of the
  batch drain (status 200, \<^verbatim>\<open>requestId\<close> and \<^verbatim>\<open>timestamp\<close>), \<^verbatim>\<open>w.WriteHeader(200)\<close>
  with an empty body, or a run-time panic, after which the handler writes nothing.
\<close>

datatype outcome =
    HttpError error nat
  | FirehoseOK string int64
  | StatusOK
  | Panic string

definition StatusBadRequest :: nat where
  "StatusBadRequest = 400"

definition LogDrainProjectHeader :: string where
  "LogDrainProjectHeader = ''x-highlight-project''"

definition LogDrainServiceHeader :: string where
  "LogDrainServiceHeader = ''x-highlight-service''"

text \<open>
  \<^verbatim>\<open>semconv.ServiceNameKey\<close> of \<^verbatim>\<open>go.opentelemetry.io/otel/semconv/v1.17.0\<close>, declared
  there as \<^verbatim>\<open>attribute.Key("service.name")\<close>.
\<close>

definition ServiceNameKey :: string where
  "ServiceNameKey = ''service.name''"

text \<open>
  \<^verbatim>\<open>hlog.SubmitHTTPLog\<close> is the sink, outside this program. A sink answers a call with
  an error or with none, and its answer may depend on the calls made before: it is a
  function of the calls of this request so far and of the call. The handlers' results
  carry the list of the calls made, in order.
\<close>

type_synonym calls = "(int \<times> Log) list"

type_synonym sink = "calls \<Rightarrow> int \<Rightarrow> Log \<Rightarrow> error option"

definition SubmitHTTPLog :: "sink \<Rightarrow> calls \<Rightarrow> int \<Rightarrow> Log \<Rightarrow> error option \<times> calls" where
  "SubmitHTTPLog snk cs projectID hl = (snk cs projectID hl, cs @ [(projectID, hl)])"

section \<open>HandleFirehoseLog\<close>

text \<open>Lines 27 to 42: the body, through a gzip reader when the request says so.\<close>

definition firehose_body :: "env \<Rightarrow> Request \<Rightarrow> error + string" where
  "firehose_body E r =
     (if Header_Get (Header r) ''content-encoding'' = ''gzip'' then
        (case Body r of
           Inl e \<Rightarrow> Inl e
         | Inr raw \<Rightarrow>
             (case gzip_NewReader E raw of
                Some e \<Rightarrow> Inl e
              | None \<Rightarrow> gzip_ReadAll E raw))
      else Body r)"

text \<open>Lines 86 to 98: the record's bytes, decompressed when they are a gzip stream.\<close>

definition record_msg :: "env \<Rightarrow> string \<Rightarrow> error + string" where
  "record_msg E data =
     (case gzip_NewReader E data of
        None \<Rightarrow> gzip_ReadAll E data
      | Some e \<Rightarrow> Inr data)"

definition zero_CloudwatchPayload :: CloudwatchPayload where
  "zero_CloudwatchPayload =
     \<lparr>MessageType = [], Owner = [], LogGroup = [], LogStream = [],
      SubscriptionFilters = [], LogEvents = []\<rparr>"

definition Unmarshal_cloudwatchPayload :: "env \<Rightarrow> string \<Rightarrow> error + CloudwatchPayload" where
  "Unmarshal_cloudwatchPayload E msg =
     json_Unmarshal E (decode_struct CloudwatchPayload_field ''struct'') msg zero_CloudwatchPayload"

text \<open>Lines 115 to 119 and 127 to 138: the two records the loop builds.\<close>

definition raw_log :: "env \<Rightarrow> FirehoseBody \<Rightarrow> string \<Rightarrow> Log" where
  "raw_log E lg msg =
     \<lparr>Message = msg, Timestamp = format_UnixMilli E (lg_Timestamp lg), Level = ''info'',
      Attributes = None\<rparr>"

definition event_log :: "env \<Rightarrow> CloudwatchPayload \<Rightarrow> LogEvent \<Rightarrow> Log" where
  "event_log E cloudwatchPayload event =
     \<lparr>Message = ev_Message event, Timestamp = format_UnixMilli E (ev_Timestamp event),
      Level = ''info'',
      Attributes = Some (Map.empty
        (''service_name'' \<mapsto> ''firehose'',
         ''message_type'' \<mapsto> MessageType cloudwatchPayload,
         ''owner'' \<mapsto> Owner cloudwatchPayload,
         ''log_group'' \<mapsto> LogGroup cloudwatchPayload,
         ''log_stream'' \<mapsto> LogStream cloudwatchPayload))\<rparr>"

text \<open>
  Lines 126 to 144, the loop over the log events. A loop gives the error that ends the
  request, if any, and the calls made to the sink so far.
\<close>

fun submit_events :: "env \<Rightarrow> sink \<Rightarrow> int \<Rightarrow> CloudwatchPayload \<Rightarrow> LogEvent list \<Rightarrow> calls \<Rightarrow> error option \<times> calls" where
  "submit_events E snk projectID cw [] cs = (None, cs)"
| "submit_events E snk projectID cw (event # events) cs =
     (case SubmitHTTPLog snk cs projectID (event_log E cw event) of
        (Some e, cs') \<Rightarrow> (Some e, cs')
      | (None, cs') \<Rightarrow> submit_events E snk projectID cw events cs')"

text \<open>Lines 79 to 145, the body of the loop over the records.\<close>

definition firehose_record :: "env \<Rightarrow> sink \<Rightarrow> int \<Rightarrow> FirehoseBody \<Rightarrow> FirehoseRecord \<Rightarrow> calls \<Rightarrow> error option \<times> calls" where
  "firehose_record E snk projectID lg l cs =
     (case base64_DecodeString E (Data l) of
        Inl e \<Rightarrow> (Some e, cs)
      | Inr data \<Rightarrow>
          (case record_msg E data of
             Inl e \<Rightarrow> (Some e, cs)
           | Inr msg \<Rightarrow>
               (case Unmarshal_cloudwatchPayload E msg of
                  Inl e \<Rightarrow> SubmitHTTPLog snk cs projectID (raw_log E lg msg)
                | Inr cloudwatchPayload \<Rightarrow>
                    submit_events E snk projectID cloudwatchPayload
                      (LogEvents cloudwatchPayload) cs)))"

fun firehose_records :: "env \<Rightarrow> sink \<Rightarrow> int \<Rightarrow> FirehoseBody \<Rightarrow> FirehoseRecord list \<Rightarrow> calls \<Rightarrow> error option \<times> calls" where
  "firehose_records E snk projectID lg [] cs = (None, cs)"
| "firehose_records E snk projectID lg (l # ls) cs =
     (case firehose_record E snk projectID lg l cs of
        (Some e, cs') \<Rightarrow> (Some e, cs')
      | (None, cs') \<Rightarrow> firehose_records E snk projectID lg ls cs')"

text \<open>Lines 44 to 59: the envelope, with a generated \<^verbatim>\<open>RequestId\<close> when it has none.\<close>

definition zero_FirehoseBody :: FirehoseBody where
  "zero_FirehoseBody = \<lparr>RequestId = [], lg_Timestamp = 0, Records = []\<rparr>"

definition Unmarshal_FirehoseBody :: "env \<Rightarrow> string \<Rightarrow> error + FirehoseBody" where
  "Unmarshal_FirehoseBody E body =
     json_Unmarshal E (decode_struct FirehoseBody_field ''struct'') body zero_FirehoseBody"

definition firehose_envelope :: "env \<Rightarrow> string \<Rightarrow> error + FirehoseBody" where
  "firehose_envelope E body =
     (case Unmarshal_FirehoseBody E body of
        Inl e \<Rightarrow> Inl e
      | Inr lg \<Rightarrow>
          Inr (if RequestId lg = [] then lg\<lparr>RequestId := uuid_String (uuid_New E)\<rparr> else lg))"

text \<open>Lines 61 to 76: the tenant identifier of the common-attributes header.\<close>

definition firehose_projectID :: "env \<Rightarrow> Request \<Rightarrow> error + int" where
  "firehose_projectID E r =
     (case json_Unmarshal E (decode_struct AttributesMap_field ''struct'')
             (Header_Get (Header r) ''X-Amz-Firehose-Common-Attributes'')
             \<lparr>CommonAttributes = \<lparr>ProjectID = []\<rparr>\<rparr> of
        Inl e \<Rightarrow> Inl e
      | Inr attributesMap \<Rightarrow> FromVerboseID E (ProjectID (CommonAttributes attributesMap)))"

definition HandleFirehoseLog :: "env \<Rightarrow> sink \<Rightarrow> Request \<Rightarrow> outcome \<times> calls" where
  "HandleFirehoseLog E snk r =
     (case firehose_body E r of
        Inl e \<Rightarrow> (HttpError e StatusBadRequest, [])
      | Inr body \<Rightarrow>
          (case firehose_envelope E body of
             Inl e \<Rightarrow> (HttpError e StatusBadRequest, [])
           | Inr lg \<Rightarrow>
               (case firehose_projectID E r of
                  Inl e \<Rightarrow> (HttpError e StatusBadRequest, [])
                | Inr projectID \<Rightarrow>
                    (case firehose_records E snk projectID lg (Records lg) [] of
                       (Some e, cs) \<Rightarrow> (HttpError e StatusBadRequest, cs)
                     | (None, cs) \<Rightarrow>
                         (FirehoseOK (RequestId lg) (time_Now_UnixMilli E), cs)))))"

section \<open>HandleJSONLog\<close>

text \<open>An assignment \<^verbatim>\<open>m[k] = v\<close> to a Go map: a panic when the map is \<^verbatim>\<open>nil\<close>.\<close>

definition map_assign :: "(string \<rightharpoonup> string) option \<Rightarrow> string \<Rightarrow> string \<Rightarrow> string + (string \<rightharpoonup> string) option" where
  "map_assign m k v =
     (case m of
        None \<Rightarrow> Inl ''assignment to entry in nil map''
      | Some f \<Rightarrow> Inr (Some (f(k \<mapsto> v))))"

definition map_index :: "(string \<rightharpoonup> string) \<Rightarrow> string \<Rightarrow> string" where
  "map_index m k = (case m k of None \<Rightarrow> [] | Some v \<Rightarrow> v)"

text \<open>
  Lines 183 to 190, the type switch, and lines 182 to 191, the loop around it. Go ranges
  over a map in an order it does not specify; the loop here takes the entries in the
  order of the list, and its result is the same in any other order, the keys of a map
  being distinct.
\<close>

fun harvest_value :: "env \<Rightarrow> (string \<rightharpoonup> string) option \<Rightarrow> string \<Rightarrow> any \<Rightarrow> string + (string \<rightharpoonup> string) option" where
  "harvest_value E attrs k (String typed) = map_assign attrs k typed"
| "harvest_value E attrs k (Int64 typed) = map_assign attrs k (FormatInt typed)"
| "harvest_value E attrs k (Float64 typed) = map_assign attrs k (FormatFloat_E E typed)"
| "harvest_value E attrs k v = Inr attrs"

fun harvest :: "env \<Rightarrow> (string \<rightharpoonup> string) option \<Rightarrow> (string \<times> any) list \<Rightarrow> string + (string \<rightharpoonup> string) option" where
  "harvest E attrs [] = Inr attrs"
| "harvest E attrs ((k, v) # kvs) =
     (case harvest_value E attrs k v of
        Inl p \<Rightarrow> Inl p
      | Inr attrs' \<Rightarrow> harvest E attrs' kvs)"

text \<open>Lines 193 to 200: the local map \<^verbatim>\<open>attributes\<close> of the two header values.\<close>

definition header_attributes :: "Request \<Rightarrow> (string \<rightharpoonup> string)" where
  "header_attributes r =
     fold (\<lambda>k attributes. attributes(k \<mapsto> Header_Get (Header r) k))
       [LogDrainProjectHeader, LogDrainServiceHeader] Map.empty"

definition zero_Log :: Log where
  "zero_Log = \<lparr>Message = [], Timestamp = [], Level = [], Attributes = None\<rparr>"

text \<open>Lines 168 to 191: the two decodings of the body and the harvest.\<close>

definition Unmarshal_Log :: "env \<Rightarrow> string \<Rightarrow> error + Log" where
  "Unmarshal_Log E body =
     json_Unmarshal E (decode_struct Log_field ''log.Log'') body
       (zero_Log\<lparr>Attributes := Some Map.empty\<rparr>)"

definition json_log :: "env \<Rightarrow> string \<Rightarrow> error + (string + Log)" where
  "json_log E body =
     (case Unmarshal_Log E body of
        Inl e \<Rightarrow> Inl e
      | Inr lg \<Rightarrow>
          (case json_Unmarshal E (decode_map_any E) body [] of
             Inl e \<Rightarrow> Inl e
           | Inr lgAttrs \<Rightarrow>
               (case harvest E (Attributes lg) lgAttrs of
                  Inl p \<Rightarrow> Inr (Inl p)
                | Inr attrs \<Rightarrow> Inr (Inr (lg\<lparr>Attributes := attrs\<rparr>)))))"

definition HandleJSONLog :: "env \<Rightarrow> sink \<Rightarrow> Request \<Rightarrow> outcome \<times> calls" where
  "HandleJSONLog E snk r =
     (case Body r of
        Inl e \<Rightarrow> (HttpError e StatusBadRequest, [])
      | Inr body \<Rightarrow>
          (case json_log E body of
             Inl e \<Rightarrow> (HttpError e StatusBadRequest, [])
           | Inr (Inl p) \<Rightarrow> (Panic p, [])
           | Inr (Inr lg) \<Rightarrow>
               (let attributes = header_attributes r in
                case FromVerboseID E (map_index attributes LogDrainProjectHeader) of
                  Inl e \<Rightarrow> (HttpError e StatusBadRequest, [])
                | Inr projectID \<Rightarrow>
                    (case map_assign (Attributes lg) ServiceNameKey
                            (map_index attributes LogDrainServiceHeader) of
                       Inl p \<Rightarrow> (Panic p, [])
                     | Inr attrs \<Rightarrow>
                         (case SubmitHTTPLog snk [] projectID (lg\<lparr>Attributes := attrs\<rparr>) of
                            (Some e, cs) \<Rightarrow> (HttpError e StatusBadRequest, cs)
                          | (None, cs) \<Rightarrow> (StatusOK, cs))))))"

section \<open>Notions the properties are stated with\<close>


text \<open>The value a record's attributes hold under a key, if the map is there and has it.\<close>

definition attribute :: "Log \<Rightarrow> string \<Rightarrow> string option" where
  "attribute hl k = (case Attributes hl of None \<Rightarrow> None | Some m \<Rightarrow> m k)"

text \<open>The text that the type switch of the harvest stores for a value, if it stores one.\<close>

fun harvested :: "env \<Rightarrow> any \<Rightarrow> string option" where
  "harvested E (String typed) = Some typed"
| "harvested E (Int64 typed) = Some (FormatInt typed)"
| "harvested E (Float64 typed) = Some (FormatFloat_E E typed)"
| "harvested E v = None"





section \<open>Example requests\<close>

text \<open>
  An environment for the examples. Its library functions are tables that agree with the
  Go libraries, up to the wording of an error, on the arguments the examples reach: the
  JSON documents and the base64 texts listed, the number 3 (the \<^verbatim>\<open>float64\<close> with bits \<^verbatim>\<open>0x4008000000000000\<close>, which
  \<^verbatim>\<open>FormatFloat(3, 'E', -1, 64)\<close> prints as \<^verbatim>\<open>3E+00\<close>), texts that do not begin with the
  gzip magic bytes, and a gzip stream cut off after its ten header bytes, on which
  \<^verbatim>\<open>gzip.NewReader\<close> succeeds and the read fails. The codec of tenant identifiers accepts
  two identifiers of project 7.
\<close>

definition gzip_header_only :: string where
  "gzip_header_only =
     [CHR 0x1F, CHR 0x8B, CHR 0x08, CHR 0x00, CHR 0x00, CHR 0x00, CHR 0x00, CHR 0x00, CHR 0x00,
      CHR 0xFF]"

definition example_documents :: "(string \<times> json) list" where
  "example_documents =
    [(''{\"message\":\"hello\",\"level\":\"warn\",\"count\":3}'',
        JObject [(''message'', JString ''hello''), (''level'', JString ''warn''),
                 (''count'', JNumber ''3'')]),
     (''{}'', JObject []),
     (''{\"attributes\":null,\"message\":\"hi\"}'',
        JObject [(''attributes'', JNull), (''message'', JString ''hi'')]),
     (''{\"service_name\":\"from-body\"}'',
        JObject [(''service_name'', JString ''from-body'')]),
     (''{\"commonAttributes\":{\"x-highlight-project\":\"valid-id\"}}'',
        JObject [(''commonAttributes'',
                  JObject [(''x-highlight-project'', JString ''valid-id'')])]),
     (''{\"logEvents\":[{\"message\":1},{\"message\":2}]}'',
        JObject [(''logEvents'', JArray [JObject [(''message'', JNumber ''1'')],
                                          JObject [(''message'', JNumber ''2'')]])]),
     (''{\"logEvents\":[{\"message\":\"a\"},{\"message\":\"b\"}]}'',
        JObject [(''logEvents'', JArray [JObject [(''message'', JString ''a'')],
                                          JObject [(''message'', JString ''b'')]])]),
     (''{\"records\":[{\"data\":\"eyJsb2dFdmVudHMiOlt7Im1lc3NhZ2UiOjF9LHsibWVzc2FnZSI6Mn1dfQ==\"}]}'',
        JObject [(''records'', JArray [JObject [(''data'',
          JString ''eyJsb2dFdmVudHMiOlt7Im1lc3NhZ2UiOjF9LHsibWVzc2FnZSI6Mn1dfQ=='')]])]),
     (''{\"records\":[{\"data\":\"eyJsb2dFdmVudHMiOlt7Im1lc3NhZ2UiOiJhIn0seyJtZXNzYWdlIjoiYiJ9XX0=\"}]}'',
        JObject [(''records'', JArray [JObject [(''data'',
          JString ''eyJsb2dFdmVudHMiOlt7Im1lc3NhZ2UiOiJhIn0seyJtZXNzYWdlIjoiYiJ9XX0='')]])]),
     (''{\"requestId\":\"\",\"records\":[]}'',
        JObject [(''requestId'', JString []), (''records'', JArray [])]),
     (''{\"requestId\":\"r-1\",\"records\":[]}'',
        JObject [(''requestId'', JString ''r-1''), (''records'', JArray [])]),
     (''{\"records\":[{\"data\":\"cGxhaW4gdGV4dA==\"},{\"data\":\"H4sIAAAAAAAA/w==\"}]}'',
        JObject [(''records'', JArray
          [JObject [(''data'', JString ''cGxhaW4gdGV4dA=='')],
           JObject [(''data'', JString ''H4sIAAAAAAAA/w=='')]])])]"

definition example_base64 :: "(string \<times> string) list" where
  "example_base64 =
    [(''eyJsb2dFdmVudHMiOlt7Im1lc3NhZ2UiOjF9LHsibWVzc2FnZSI6Mn1dfQ=='',
        ''{\"logEvents\":[{\"message\":1},{\"message\":2}]}''),
     (''eyJsb2dFdmVudHMiOlt7Im1lc3NhZ2UiOiJhIn0seyJtZXNzYWdlIjoiYiJ9XX0='',
        ''{\"logEvents\":[{\"message\":\"a\"},{\"message\":\"b\"}]}''),
     (''cGxhaW4gdGV4dA=='', ''plain text''),
     (''H4sIAAAAAAAA/w=='', gzip_header_only)]"

definition example_env :: env where
  "example_env =
     \<lparr>json_parse = (\<lambda>s. case map_of example_documents s of
                          Some j \<Rightarrow> Inr j
                        | None \<Rightarrow> Inl ''invalid character looking for beginning of value''),
      ParseFloat = (\<lambda>s. if s = ''3'' then Inr (Float64bits 0x4008000000000000)
                        else Inl ''strconv.ParseFloat: value out of range''),
      FormatFloat_E = (\<lambda>f. if f = Float64bits 0x4008000000000000 then ''3E+00'' else ''NaN''),
      gzip_NewReader = (\<lambda>s. if s = gzip_header_only then None
                            else Some ''gzip: invalid header''),
      gzip_ReadAll = (\<lambda>s. Inl ''unexpected EOF''),
      base64_DecodeString = (\<lambda>s. case map_of example_base64 s of
                          Some d \<Rightarrow> Inr d
                        | None \<Rightarrow> Inl ''illegal base64 data at input byte 0''),
      FromVerboseID = (\<lambda>s. if s = ''valid-id'' then Inr 7 else if s = ''7'' then Inr 7
                           else Inl ''an unsupported verboseID was used''),
      uuid_New = map of_nat [0x6B, 0xA7, 0xB8, 0x10, 0x9D, 0xAD, 0x41, 0xD1,
                             0x80, 0xB4, 0x00, 0xC0, 0x4F, 0xD4, 0x30, 0xC8],
      time_Now_UnixMilli = 1700000000000,
      format_UnixMilli = (\<lambda>ms. if ms = 0 then ''1970-01-01T00:00:00.000Z'' else ''later'')\<rparr>"

definition accepting_sink :: sink where
  "accepting_sink cs projectID hl = None"


definition json_request :: "string \<Rightarrow> string \<Rightarrow> string \<Rightarrow> Request" where
  "json_request project service body =
     \<lparr>Header = [''X-Highlight-Project'' \<mapsto> project, ''X-Highlight-Service'' \<mapsto> service],
      Body = Inr body\<rparr>"

definition firehose_request :: "string \<Rightarrow> Request" where
  "firehose_request body =
     \<lparr>Header = [''X-Amz-Firehose-Common-Attributes'' \<mapsto>
                   ''{\"commonAttributes\":{\"x-highlight-project\":\"valid-id\"}}''],
      Body = Inr body\<rparr>"

text \<open>The request of the spec's round trip: an integer field beside message and level.\<close>

definition count_request :: Request where
  "count_request =
     json_request ''valid-id'' [] ''{\"message\":\"hello\",\"level\":\"warn\",\"count\":3}''"

text \<open>A flat JSON request whose body is the empty object.\<close>

definition empty_object_request :: Request where
  "empty_object_request = json_request ''valid-id'' [] ''{}''"

text \<open>A flat JSON request with no tenant header, whose body sets attributes to null.\<close>

definition null_attributes_request :: Request where
  "null_attributes_request =
     \<lparr>Header = Map.empty, Body = Inr ''{\"attributes\":null,\"message\":\"hi\"}''\<rparr>"

text \<open>A flat JSON request that names a service in the body and another in the header.\<close>

definition service_request :: Request where
  "service_request =
     json_request ''valid-id'' ''from-header'' ''{\"service_name\":\"from-body\"}''"


definition two_event_batch :: Request where
  "two_event_batch = firehose_request
     ''{\"records\":[{\"data\":\"eyJsb2dFdmVudHMiOlt7Im1lc3NhZ2UiOiJhIn0seyJtZXNzYWdlIjoiYiJ9XX0=\"}]}''"

text \<open>Batches with no record, the request identifier empty and given.\<close>

definition empty_id_batch :: Request where
  "empty_id_batch = firehose_request ''{\"requestId\":\"\",\"records\":[]}''"

definition given_id_batch :: Request where
  "given_id_batch = firehose_request ''{\"requestId\":\"r-1\",\"records\":[]}''"

text \<open>A batch of a record of plain text and a record of a cut-off gzip stream.\<close>

definition text_then_corrupt_batch :: Request where
  "text_then_corrupt_batch = firehose_request
     ''{\"records\":[{\"data\":\"cGxhaW4gdGV4dA==\"},{\"data\":\"H4sIAAAAAAAA/w==\"}]}''"

section \<open>The calls a batch makes\<close>













lemma corrupt_record_fails:
  assumes "base64_DecodeString E (Data l) = Inr data"
    and "gzip_NewReader E data = None"
    and "gzip_ReadAll E data = Inl e"
  shows "firehose_record E snk p lg l cs = (Some e, cs)"
  using assms by (simp add: firehose_record_def record_msg_def)

lemma corrupt_record_fails_batch:
  assumes "l \<in> set ls"
    and "base64_DecodeString E (Data l) = Inr data"
    and "gzip_NewReader E data = None"
    and "gzip_ReadAll E data = Inl e"
  shows "fst (firehose_records E snk p lg ls cs) \<noteq> None"
  using assms(1)
proof (induction ls arbitrary: cs)
  case Nil
  then show ?case by simp
next
  case (Cons a ls)
  show ?case
  proof (cases "a = l")
    case True
    then show ?thesis using corrupt_record_fails [OF assms(2-4), of snk p lg cs] by simp
  next
    case False
    with Cons.prems have "l \<in> set ls" by simp
    then show ?thesis using Cons.IH by (auto split: prod.splits option.splits)
  qed
qed

text \<open>
  Claim C9. When the decoded bytes of a record of the batch pass \<^verbatim>\<open>gzip.NewReader\<close>
  (a valid gzip header) and reading the stream fails, the record makes no call and
  ends the loop with that error, and the request ends with status 400. The bytes
  themselves are the payload only when \<^verbatim>\<open>gzip.NewReader\<close> refuses them.
\<close>

theorem firehose_corrupt_gzip_rejected:
  assumes "firehose_body E r = Inr body"
    and "firehose_envelope E body = Inr lg"
    and "l \<in> set (Records lg)"
    and "base64_DecodeString E (Data l) = Inr data"
    and "gzip_NewReader E data = None"
    and "gzip_ReadAll E data = Inl e"
  shows "(\<exists>msg. fst (HandleFirehoseLog E snk r) = HttpError msg StatusBadRequest) \<and>
         firehose_record E snk p lg l cs = (Some e, cs) \<and>
         record_msg E d = (if gzip_NewReader E d = None then gzip_ReadAll E d else Inr d)"
proof -
  have a: "\<exists>msg. fst (HandleFirehoseLog E snk r) = HttpError msg StatusBadRequest"
  proof (cases "firehose_projectID E r")
    case (Inl e')
    then show ?thesis using assms(1,2) by (simp add: HandleFirehoseLog_def)
  next
    case (Inr q)
    have "fst (firehose_records E snk q lg (Records lg) []) \<noteq> None"
      using corrupt_record_fails_batch [OF assms(3-6)] .
    then show ?thesis using assms(1,2) Inr
      by (auto simp: HandleFirehoseLog_def split: prod.splits option.splits)
  qed
  have b: "firehose_record E snk p lg l cs = (Some e, cs)"
    using corrupt_record_fails [OF assms(4-6)] .
  have c: "record_msg E d = (if gzip_NewReader E d = None then gzip_ReadAll E d else Inr d)"
    by (auto simp: record_msg_def split: option.splits)
  from a b c show ?thesis by blast
qed

theorem firehose_corrupt_gzip_rejected_witness:
  "fst (HandleFirehoseLog example_env accepting_sink text_then_corrupt_batch)
     = HttpError ''unexpected EOF'' StatusBadRequest \<and>
   length (snd (HandleFirehoseLog example_env accepting_sink text_then_corrupt_batch)) = 1"
proof -
  let ?body = "''{\"records\":[{\"data\":\"cGxhaW4gdGV4dA==\"},{\"data\":\"H4sIAAAAAAAA/w==\"}]}''"
  let ?lg = "\<lparr>RequestId = ''6ba7b810-9dad-41d1-80b4-00c04fd430c8'', lg_Timestamp = 0,
              Records = [\<lparr>Data = ''cGxhaW4gdGV4dA==''\<rparr>, \<lparr>Data = ''H4sIAAAAAAAA/w==''\<rparr>]\<rparr>"
  have 1: "firehose_body example_env text_then_corrupt_batch = Inr ?body"
    by code_simp
  have 2: "firehose_envelope example_env ?body = Inr ?lg"
    by code_simp
  have 3: "\<lparr>Data = ''H4sIAAAAAAAA/w==''\<rparr> \<in> set (Records ?lg)"
    by simp
  have 4: "base64_DecodeString example_env (Data \<lparr>Data = ''H4sIAAAAAAAA/w==''\<rparr>)
             = Inr gzip_header_only"
    by code_simp
  have 5: "gzip_NewReader example_env gzip_header_only = None"
    by code_simp
  have 6: "gzip_ReadAll example_env gzip_header_only = Inl ''unexpected EOF''"
    by code_simp
  have "\<exists>msg. fst (HandleFirehoseLog example_env accepting_sink text_then_corrupt_batch)
          = HttpError msg StatusBadRequest"
    using firehose_corrupt_gzip_rejected [OF 1 2 3 4 5 6] by blast
  moreover have "fst (HandleFirehoseLog example_env accepting_sink text_then_corrupt_batch)
      = HttpError ''unexpected EOF'' StatusBadRequest"
    by code_simp
  moreover have
    "length (snd (HandleFirehoseLog example_env accepting_sink text_then_corrupt_batch)) = 1"
    by code_simp
  ultimately show ?thesis by blast
qed

section \<open>Batches of structured records\<close>








section \<open>The acknowledgement of a batch\<close>

lemma uuid_String_not_empty: "uuid_String u \<noteq> []"
  by (simp add: uuid_String_def)

text \<open>
  Claim C7, as the code has it. The claim as stated fails for an envelope that gives
  the request identifier explicitly as the empty string: the acknowledgement does not
  echo it, it carries a generated identifier.
\<close>

theorem firehose_requestId_counterexample:
  "json_parse example_env ''{\"requestId\":\"\",\"records\":[]}''
     = Inr (JObject [(''requestId'', JString []), (''records'', JArray [])]) \<and>
   fst (HandleFirehoseLog example_env accepting_sink empty_id_batch)
     = FirehoseOK ''6ba7b810-9dad-41d1-80b4-00c04fd430c8'' 1700000000000"
  by code_simp

text \<open>
  Claim C7, amended. The acknowledgement of a successful batch echoes the request
  identifier that the envelope decodes to when that is not empty; when it is empty
  (the member absent, null or the empty string) the acknowledgement carries the text
  of a generated UUID. In both cases the identifier of the acknowledgement is not
  empty.
\<close>

theorem firehose_response_requestId:
  assumes "HandleFirehoseLog E snk r = (FirehoseOK rid ts, cs)"
  shows "\<exists>body lg. firehose_body E r = Inr body \<and> Unmarshal_FirehoseBody E body = Inr lg \<and>
           rid = (if RequestId lg = [] then uuid_String (uuid_New E) else RequestId lg) \<and>
           rid \<noteq> []"
  using assms
  by (auto simp: HandleFirehoseLog_def firehose_envelope_def uuid_String_not_empty
      split: sum.splits prod.splits option.splits if_splits)

theorem firehose_response_requestId_witness:
  "\<exists>lg. Unmarshal_FirehoseBody example_env ''{\"requestId\":\"r-1\",\"records\":[]}'' = Inr lg \<and>
        RequestId lg = ''r-1'' \<and>
        fst (HandleFirehoseLog example_env accepting_sink given_id_batch)
          = FirehoseOK ''r-1'' 1700000000000"
proof -
  let ?h = "HandleFirehoseLog example_env accepting_sink given_id_batch"
  have f: "fst ?h = FirehoseOK ''r-1'' 1700000000000"
    by code_simp
  then have run: "?h = (FirehoseOK ''r-1'' 1700000000000, snd ?h)"
    by (metis prod.collapse)
  have b: "firehose_body example_env given_id_batch = Inr ''{\"requestId\":\"r-1\",\"records\":[]}''"
    by code_simp
  from firehose_response_requestId [OF run] b
  obtain lg where
    u: "Unmarshal_FirehoseBody example_env ''{\"requestId\":\"r-1\",\"records\":[]}'' = Inr lg"
    and i: "''r-1'' = (if RequestId lg = [] then uuid_String (uuid_New example_env)
                      else RequestId lg)"
    by auto
  have "uuid_String (uuid_New example_env) \<noteq> ''r-1''"
    by code_simp
  with i have "RequestId lg = ''r-1''"
    by (auto split: if_splits)
  with u f show ?thesis by blast
qed

section \<open>The flat JSON drain\<close>

text \<open>The harvest does not depend on the order in which the map is ranged over.\<close>

lemma harvest_value_harvested:
  "harvest_value E a k v = (case harvested E v of None \<Rightarrow> Inr a | Some s \<Rightarrow> map_assign a k s)"
  by (cases v) simp_all

lemma harvest_nil_map:
  "harvest E None kvs =
     (if \<exists>kv \<in> set kvs. harvested E (snd kv) \<noteq> None
      then Inl ''assignment to entry in nil map'' else Inr None)"
proof (induction kvs)
  case Nil
  show ?case by simp
next
  case (Cons kv kvs)
  obtain k v where kv: "kv = (k, v)" by (cases kv)
  show ?case
  proof (cases "harvested E v")
    case None
    with kv Cons.IH show ?thesis by (simp add: harvest_value_harvested)
  next
    case (Some s)
    with kv show ?thesis by (simp add: harvest_value_harvested map_assign_def)
  qed
qed

lemma harvest_map:
  "harvest E (Some m) kvs =
     Inr (Some (fold (\<lambda>kv m. case harvested E (snd kv) of None \<Rightarrow> m | Some s \<Rightarrow> m(fst kv \<mapsto> s))
       kvs m))"
  by (induction kvs arbitrary: m)
    (auto simp: harvest_value_harvested map_assign_def split: option.splits)

lemma harvest_order_irrelevant:
  assumes "distinct (map fst kvs)" and "mset kvs' = mset kvs"
  shows "harvest E a kvs' = harvest E a kvs"
proof (cases a)
  case None
  from assms(2) have "set kvs' = set kvs" by (rule mset_eq_setD)
  with None show ?thesis by (simp add: harvest_nil_map)
next
  case (Some m)
  let ?f = "\<lambda>kv m. case harvested E (snd kv) of None \<Rightarrow> m | Some s \<Rightarrow> m(fst kv \<mapsto> s)"
  have comm: "?f x \<circ> ?f y = ?f y \<circ> ?f x" if "x \<in> set kvs" and "y \<in> set kvs" for x y
  proof (cases "x = y")
    case True
    show ?thesis unfolding True by (rule refl)
  next
    case False
    with assms(1) that have "fst x \<noteq> fst y"
      by (metis distinct_map inj_on_def)
    then show ?thesis
      by (auto simp: fun_eq_iff split: option.splits)
  qed
  have "fold ?f kvs' = fold ?f kvs"
    by (rule fold_multiset_equiv [OF _ assms(2)[symmetric], symmetric]) (use comm in blast)
  with Some show ?thesis by (simp add: harvest_map)
qed

lemma objectInterface_distinct:
  "objectInterface E m ms = Inr m' \<Longrightarrow> distinct (map fst m) \<Longrightarrow> distinct (map fst m')"
  by (induction ms arbitrary: m) (auto simp: distinct_update split: sum.splits)

lemma decode_map_any_distinct:
  "decode_map_any E [] j = Inr kvs \<Longrightarrow> distinct (map fst kvs)"
  by (cases j) (auto simp: decode_map_any_def dest: objectInterface_distinct)



lemma header_attributes_project:
  "map_index (header_attributes r) LogDrainProjectHeader = Header_Get (Header r) LogDrainProjectHeader"
  by (simp add: header_attributes_def map_index_def LogDrainProjectHeader_def
      LogDrainServiceHeader_def)

lemma header_attributes_service:
  "map_index (header_attributes r) LogDrainServiceHeader = Header_Get (Header r) LogDrainServiceHeader"
  by (simp add: header_attributes_def map_index_def)

text \<open>What a call of the flat JSON drain is made of.\<close>

lemma HandleJSONLog_calls:
  assumes "c \<in> set (snd (HandleJSONLog E snk r))"
  shows "\<exists>body lg m0. Body r = Inr body \<and> json_log E body = Inr (Inr lg) \<and>
           Attributes lg = Some m0 \<and>
           FromVerboseID E (Header_Get (Header r) LogDrainProjectHeader) = Inr (fst c) \<and>
           snd c = lg\<lparr>Attributes :=
             Some (m0(ServiceNameKey \<mapsto> Header_Get (Header r) LogDrainServiceHeader))\<rparr>"
  using assms
  by (auto simp: HandleJSONLog_def Let_def header_attributes_project header_attributes_service
      map_assign_def SubmitHTTPLog_def
      split: sum.splits option.splits prod.splits)

lemma json_log_fields:
  assumes "json_log E body = Inr (Inr lg)"
  shows "\<exists>lg0. Unmarshal_Log E body = Inr lg0 \<and> Message lg = Message lg0 \<and>
           Timestamp lg = Timestamp lg0 \<and> Level lg = Level lg0"
  using assms by (auto simp: json_log_def split: sum.splits)

lemma valueInterface_not_Int64: "valueInterface E j \<noteq> Inr (Int64 i)"
  by (cases j) (auto split: sum.splits)

lemma number_harvested_as_float:
  assumes "valueInterface E (JNumber lit) = Inr v"
  shows "\<exists>f. ParseFloat E lit = Inr f \<and>
           harvest_value E (Some m) k v = Inr (Some (m(k \<mapsto> FormatFloat_E E f)))"
  using assms by (auto simp: map_assign_def split: sum.splits)

text \<open>
  Claim C1. The code does not do what the claim says for an integer. The switch of
  \<^verbatim>\<open>HandleJSONLog\<close> has a case for \<^verbatim>\<open>int64\<close> that prints base 10, but \<^verbatim>\<open>json.Unmarshal\<close>
  into a \<^verbatim>\<open>map[string]interface{}\<close> makes every JSON number a \<^verbatim>\<open>float64\<close>, so the case
  is never taken and an integer is printed in the scientific notation of the float
  case. For the body of the spec's round trip, with a valid tenant header, the record
  handed to the sink has message hello, level warn and the attribute count equal to
  \<^verbatim>\<open>3E+00\<close>, not \<^verbatim>\<open>3\<close>.
\<close>

theorem json_count_attribute:
  "fst (HandleJSONLog example_env accepting_sink count_request) = StatusOK \<and>
   length (snd (HandleJSONLog example_env accepting_sink count_request)) = 1 \<and>
   Message (snd (hd (snd (HandleJSONLog example_env accepting_sink count_request)))) = ''hello'' \<and>
   Level (snd (hd (snd (HandleJSONLog example_env accepting_sink count_request)))) = ''warn'' \<and>
   attribute (snd (hd (snd (HandleJSONLog example_env accepting_sink count_request)))) ''count''
     = Some ''3E+00''"
  by code_simp

lemma firehose_invalid_project:
  assumes "firehose_projectID E r = Inl e"
  shows "\<exists>msg. HandleFirehoseLog E snk r = (HttpError msg StatusBadRequest, [])"
  using assms by (auto simp: HandleFirehoseLog_def split: sum.splits)

lemma json_invalid_project:
  assumes "FromVerboseID E (Header_Get (Header r) LogDrainProjectHeader) = Inl e"
  shows "snd (HandleJSONLog E snk r) = [] \<and>
         ((\<exists>msg. fst (HandleJSONLog E snk r) = HttpError msg StatusBadRequest) \<or>
          (\<exists>p. fst (HandleJSONLog E snk r) = Panic p))"
  using assms
  by (auto simp: HandleJSONLog_def Let_def header_attributes_project split: sum.splits)

text \<open>
  Claim C4. The code does not do what the claim says in one case of the flat JSON
  drain. The harvest of the body's fields runs before the tenant identifier is
  resolved, and it assigns into the map of attributes, which a body member
  \<^verbatim>\<open>"attributes": null\<close> has set to \<^verbatim>\<open>nil\<close>: the handler panics and writes no status 400.
  For the request below, which has no tenant header, the tenant identifier does not
  resolve, the handler ends in the panic, and no call is made to the sink.
\<close>

theorem json_missing_tenant_panic:
  "FromVerboseID example_env (Header_Get (Header null_attributes_request) LogDrainProjectHeader)
     = Inl ''an unsupported verboseID was used'' \<and>
   fst (HandleJSONLog example_env accepting_sink null_attributes_request)
     = Panic ''assignment to entry in nil map'' \<and>
   length (snd (HandleJSONLog example_env accepting_sink null_attributes_request)) = 0"
  by code_simp

text \<open>
  Claim C8, as the code has it. The claim as stated fails for the key \<^verbatim>\<open>service_name\<close>:
  the key the handler writes is \<^verbatim>\<open>semconv.ServiceNameKey\<close>, which is \<^verbatim>\<open>service.name\<close>. A
  body field \<^verbatim>\<open>service_name\<close> is harvested like any other and keeps the body's value
  beside the header's.
\<close>

theorem json_service_name_counterexample:
  "Header_Get (Header service_request) LogDrainServiceHeader = ''from-header'' \<and>
   length (snd (HandleJSONLog example_env accepting_sink service_request)) = 1 \<and>
   attribute (snd (hd (snd (HandleJSONLog example_env accepting_sink service_request))))
     ''service_name'' = Some ''from-body''"
  by code_simp

text \<open>
  Claim C8, amended. Every record the flat JSON drain hands to the sink has the
  attribute \<^verbatim>\<open>service.name\<close>, the key \<^verbatim>\<open>semconv.ServiceNameKey\<close>, set to the value of the
  header \<^verbatim>\<open>x-highlight-service\<close>, the empty string when the header is absent or empty,
  whatever the body gave for that key; the attribute \<^verbatim>\<open>service_name\<close> is left as the
  body gave it.
\<close>

theorem json_service_name_attribute:
  assumes "c \<in> set (snd (HandleJSONLog E snk r))"
  shows "\<exists>body lg m0 m. Body r = Inr body \<and> json_log E body = Inr (Inr lg) \<and>
           Attributes lg = Some m0 \<and> Attributes (snd c) = Some m \<and>
           m ''service.name'' = Some (Header_Get (Header r) ''x-highlight-service'') \<and>
           m ''service_name'' = m0 ''service_name''"
  using HandleJSONLog_calls [OF assms]
  by (auto simp: ServiceNameKey_def LogDrainServiceHeader_def)

theorem json_service_name_attribute_witness:
  "\<exists>m. Attributes (snd (hd (snd (HandleJSONLog example_env accepting_sink empty_object_request))))
         = Some m \<and> m ''service.name'' = Some []"
proof -
  let ?cs = "snd (HandleJSONLog example_env accepting_sink empty_object_request)"
  have "length ?cs = 1" by code_simp
  then have 1: "hd ?cs \<in> set ?cs" by (cases ?cs) simp_all
  have 2: "Header_Get (Header empty_object_request) ''x-highlight-service'' = []"
    by code_simp
  from json_service_name_attribute [OF 1] 2 show ?thesis by auto
qed



section \<open>The records handed to the sink\<close>

lemma submit_events_calls:
  assumes "c \<in> set (snd (submit_events E snk p cw evs cs))"
  shows "c \<in> set cs \<or> (\<exists>ev. c = (p, event_log E cw ev))"
  using assms
proof (induction evs arbitrary: cs)
  case Nil
  then show ?case by simp
next
  case (Cons ev evs)
  show ?case
  proof (cases "snk cs p (event_log E cw ev)")
    case None
    with Cons.prems have "c \<in> set (snd (submit_events E snk p cw evs
        (cs @ [(p, event_log E cw ev)])))"
      by (simp add: SubmitHTTPLog_def)
    from Cons.IH [OF this] show ?thesis by auto
  next
    case (Some e)
    with Cons.prems show ?thesis by (auto simp: SubmitHTTPLog_def)
  qed
qed

lemma firehose_record_calls:
  assumes "c \<in> set (snd (firehose_record E snk p lg l cs))"
  shows "c \<in> set cs \<or> (\<exists>msg. c = (p, raw_log E lg msg)) \<or> (\<exists>cw ev. c = (p, event_log E cw ev))"
  using assms
  by (auto simp: firehose_record_def SubmitHTTPLog_def split: sum.splits
      dest: submit_events_calls)

lemma firehose_records_calls:
  assumes "c \<in> set (snd (firehose_records E snk p lg ls cs))"
  shows "c \<in> set cs \<or> (\<exists>msg. c = (p, raw_log E lg msg)) \<or> (\<exists>cw ev. c = (p, event_log E cw ev))"
  using assms
proof (induction ls arbitrary: cs)
  case Nil
  then show ?case by simp
next
  case (Cons l ls)
  show ?case
  proof (cases "firehose_record E snk p lg l cs")
    case (Pair a cs')
    have step: "c' \<in> set cs' \<Longrightarrow> c' \<in> set cs \<or> (\<exists>msg. c' = (p, raw_log E lg msg)) \<or>
        (\<exists>cw ev. c' = (p, event_log E cw ev))" for c'
      using firehose_record_calls [of c' E snk p lg l cs] Pair by simp
    show ?thesis
    proof (cases a)
      case None
      with Pair Cons.prems have "c \<in> set (snd (firehose_records E snk p lg ls cs'))" by simp
      from Cons.IH [OF this] step show ?thesis by blast
    next
      case (Some e)
      with Pair Cons.prems step show ?thesis by simp
    qed
  qed
qed

lemma HandleFirehoseLog_calls:
  assumes "c \<in> set (snd (HandleFirehoseLog E snk r))"
  shows "(\<exists>lg msg. snd c = raw_log E lg msg) \<or> (\<exists>cw ev. snd c = event_log E cw ev)"
proof -
  from assms have "\<exists>p lg. c \<in> set (snd (firehose_records E snk p lg (Records lg) []))"
    by (auto simp: HandleFirehoseLog_def split: sum.splits prod.splits option.splits)
      (metis snd_conv)+
  then obtain p lg where "c \<in> set (snd (firehose_records E snk p lg (Records lg) []))"
    by blast
  from firehose_records_calls [OF this] show ?thesis by fastforce
qed

text \<open>
  Claim C2, as the code has it. The claim as stated fails: neither drain checks the
  message or the timestamp. The flat JSON drain hands the body \<^verbatim>\<open>{}\<close> to the sink as a
  record whose message and timestamp are both empty.
\<close>

theorem sink_record_counterexample:
  "fst (HandleJSONLog example_env accepting_sink empty_object_request) = StatusOK \<and>
   length (snd (HandleJSONLog example_env accepting_sink empty_object_request)) = 1 \<and>
   Message (snd (hd (snd (HandleJSONLog example_env accepting_sink empty_object_request)))) = [] \<and>
   Timestamp (snd (hd (snd (HandleJSONLog example_env accepting_sink empty_object_request)))) = []"
  by code_simp

text \<open>
  Claim C2, amended. Every record the batch drain hands to the sink has the level info
  and a timestamp that is the rendering of a 64-bit millisecond value in the fixed
  format. Every record the flat JSON drain hands to the sink has the message, the
  timestamp and the level that the body decodes to, unchecked. Neither drain makes the
  message non-empty, and the flat JSON drain does not make the timestamp valid.
\<close>

theorem sink_record_fields:
  "(\<forall>c \<in> set (snd (HandleFirehoseLog E snk r)).
      Level (snd c) = ''info'' \<and> (\<exists>ms. Timestamp (snd c) = format_UnixMilli E ms)) \<and>
   (\<forall>c \<in> set (snd (HandleJSONLog E snk r)).
      \<exists>body lg. Body r = Inr body \<and> Unmarshal_Log E body = Inr lg \<and>
        Message (snd c) = Message lg \<and> Timestamp (snd c) = Timestamp lg \<and>
        Level (snd c) = Level lg)"
proof -
  have a: "Level (snd c) = ''info'' \<and> (\<exists>ms. Timestamp (snd c) = format_UnixMilli E ms)"
    if "c \<in> set (snd (HandleFirehoseLog E snk r))" for c
    using HandleFirehoseLog_calls [OF that]
    by (auto simp: raw_log_def event_log_def)
  have b: "\<exists>body lg. Body r = Inr body \<and> Unmarshal_Log E body = Inr lg \<and>
      Message (snd c) = Message lg \<and> Timestamp (snd c) = Timestamp lg \<and>
      Level (snd c) = Level lg"
    if "c \<in> set (snd (HandleJSONLog E snk r))" for c
  proof -
    from HandleJSONLog_calls [OF that] obtain body lg m0 where
      body: "Body r = Inr body" and lg: "json_log E body = Inr (Inr lg)"
      and c: "snd c = lg\<lparr>Attributes :=
        Some (m0(ServiceNameKey \<mapsto> Header_Get (Header r) LogDrainServiceHeader))\<rparr>"
      by blast
    from json_log_fields [OF lg] body c show ?thesis by auto
  qed
  from a b show ?thesis by blast
qed

theorem sink_record_fields_witness:
  "Level (snd (hd (snd (HandleFirehoseLog example_env accepting_sink two_event_batch)))) = ''info'' \<and>
   (\<exists>lg. Unmarshal_Log example_env ''{\"message\":\"hello\",\"level\":\"warn\",\"count\":3}'' = Inr lg \<and>
      Message (snd (hd (snd (HandleJSONLog example_env accepting_sink count_request))))
        = Message lg)"
proof -
  let ?fs = "snd (HandleFirehoseLog example_env accepting_sink two_event_batch)"
  let ?js = "snd (HandleJSONLog example_env accepting_sink count_request)"
  have "length ?fs = 2" by code_simp
  then have 1: "hd ?fs \<in> set ?fs" by (cases ?fs) simp_all
  have "length ?js = 1" by code_simp
  then have 2: "hd ?js \<in> set ?js" by (cases ?js) simp_all
  have 3: "Body count_request = Inr ''{\"message\":\"hello\",\"level\":\"warn\",\"count\":3}''"
    by code_simp
  note t = sink_record_fields [of example_env accepting_sink two_event_batch]
    sink_record_fields [of example_env accepting_sink count_request]
  from t(1) 1 have "Level (snd (hd ?fs)) = ''info''" by blast
  moreover from t(2) 2 3 have "\<exists>lg.
      Unmarshal_Log example_env ''{\"message\":\"hello\",\"level\":\"warn\",\"count\":3}'' = Inr lg \<and>
      Message (snd (hd ?js)) = Message lg"
    by fastforce
  ultimately show ?thesis by blast
qed

end
